theory Spec2Isabelle
  imports Main "HOL-Library.Sublist" "HOL-Library.Multiset"
begin

section \<open>JavaScript values used by the feed builder\<close>

text \<open>
  Optional object properties are \<open>string option\<close>: \<open>None\<close> is \<open>undefined\<close>.
  A string is the list of its code units. \<open>truthy\<close> is JavaScript's boolean coercion
  of such a value (\<open>undefined\<close> and the empty string are falsy), \<open>js_or\<close> is \<open>a || b\<close>
  and \<open>js_and_prop\<close> is \<open>o && o.p\<close> for an optional object \<open>o\<close>.
\<close>

fun truthy :: "string option \<Rightarrow> bool" where
  "truthy None = False"
| "truthy (Some s) = (s \<noteq> [])"

definition js_or :: "string option \<Rightarrow> string option \<Rightarrow> string option" where
  "js_or a b = (if truthy a then a else b)"

definition js_and_prop :: "'a option \<Rightarrow> ('a \<Rightarrow> string option) \<Rightarrow> string option" where
  "js_and_prop obj p = (case obj of None \<Rightarrow> None | Some x \<Rightarrow> p x)"

text \<open>
  A number that a comparator returns: \<open>NaN\<close> or a finite value. Time values of valid
  dates are integers (milliseconds since the epoch); their difference is kept exact here,
  and the sort only reads its sign.
\<close>

datatype jsnum = NaN | Num int

text \<open>A \<open>Date\<close> object is its time value; \<open>None\<close> is the time value NaN (Invalid Date).\<close>

type_synonym time_value = "int option"

fun date_minus :: "time_value \<Rightarrow> time_value \<Rightarrow> jsnum" where
  "date_minus (Some x) (Some y) = Num (x - y)"
| "date_minus _ _ = NaN"

text \<open>
  \<open>String.prototype.split\<close> with a non-empty separator; \<open>cur\<close> collects, reversed, the
  piece being read. With the empty separator JavaScript returns the single code units.
\<close>

fun split_aux :: "string \<Rightarrow> string \<Rightarrow> string \<Rightarrow> string list" where
  "split_aux sep cur [] = [rev cur]"
| "split_aux [] cur (c # cs) = [c] # (if cs = [] then [] else split_aux [] cur cs)"
| "split_aux (p # ps) cur (c # cs) =
     (if prefix (p # ps) (c # cs)
      then rev cur # split_aux (p # ps) [] (drop (length ps) cs)
      else split_aux (p # ps) (c # cur) cs)"

definition split :: "string \<Rightarrow> string \<Rightarrow> string list" where
  "split sep s = (if sep = [] \<and> s = [] then [] else split_aux sep [] s)"

text \<open>\<open>xs[i]\<close> on an array: \<open>undefined\<close> out of range.\<close>

fun nth_opt :: "'a list \<Rightarrow> nat \<Rightarrow> 'a option" where
  "nth_opt [] n = None"
| "nth_opt (x # xs) 0 = Some x"
| "nth_opt (x # xs) (Suc n) = nth_opt xs n"

text \<open>\<open>s.includes(t)\<close>, \<open>s.startsWith(t)\<close>, \<open>s.endsWith(t)\<close>.\<close>

fun includes_str :: "string \<Rightarrow> string \<Rightarrow> bool" where
  "includes_str [] t = (t = [])"
| "includes_str (c # cs) t = (prefix t (c # cs) \<or> includes_str cs t)"

definition startsWith :: "string \<Rightarrow> string \<Rightarrow> bool" where
  "startsWith s t = prefix t s"

definition endsWith :: "string \<Rightarrow> string \<Rightarrow> bool" where
  "endsWith s t = suffix t s"

section \<open>Items, feeds and the platform\<close>

record item =
  title :: "string option"
  link :: "string option"
  pubDate :: "string option"
  isoDate :: "string option"
  date :: "string option"
  published :: "string option"
  contentSnippet :: "string option"
  content :: "string option"
  comments :: "string option"
  timestamp :: "string option"

text \<open>What \<open>new URL(s)\<close> exposes to the builder.\<close>

record url =
  hostname :: string
  pathname :: string
  search :: string

text \<open>
  The functions of the JavaScript platform whose results depend on the engine, the locale
  or the URL standard are parameters: \<open>Date_parse s\<close> is the time value of \<open>new Date(s)\<close>
  (\<open>None\<close> for Invalid Date), \<open>toLocaleDateString t\<close> the locale date string of a valid date,
  and \<open>URL_parse s\<close> the record of \<open>new URL(s)\<close> (\<open>None\<close> when the constructor throws).
\<close>

record platform =
  Date_parse :: "string \<Rightarrow> time_value"
  toLocaleDateString :: "int \<Rightarrow> string"
  URL_parse :: "string \<Rightarrow> url option"

text \<open>\<open>new Date(v)\<close> for a string or \<open>undefined\<close>: \<open>new Date(undefined)\<close> is invalid.\<close>

definition new_Date :: "platform \<Rightarrow> string option \<Rightarrow> time_value" where
  "new_Date P v = (case v of None \<Rightarrow> None | Some s \<Rightarrow> Date_parse P s)"

section \<open>The comparator\<close>

text \<open>
  \<open>parseDate(item)\<close>: \<open>undefined\<close> for a missing item or a missing (falsy) date, else a
  \<open>Date\<close> object, which may be invalid. Its argument is optional because the feed
  ordering passes \<open>items[0]\<close>.
\<close>

definition parseDate :: "platform \<Rightarrow> item option \<Rightarrow> time_value option" where
  "parseDate P it =
     (let date = (case it of Some i \<Rightarrow> js_or (isoDate i) (pubDate i) | None \<Rightarrow> None)
      in if truthy date then Some (new_Date P date) else None)"

text \<open>
  \<open>byDateSort\<close>: a \<open>Date\<close> object is truthy even when invalid, so only an
  \<open>undefined\<close> side takes the early return.
\<close>

definition byDateSort :: "platform \<Rightarrow> item option \<Rightarrow> item option \<Rightarrow> jsnum" where
  "byDateSort P dateStrA dateStrB =
     (case (parseDate P dateStrA, parseDate P dateStrB) of
        (Some aDate, Some bDate) \<Rightarrow> date_minus bDate aDate
      | _ \<Rightarrow> Num 0)"

section \<open>Array.prototype.sort\<close>

text \<open>
  \<open>SortCompare\<close> of ECMAScript wraps the comparator: a NaN result counts as \<open>+0\<close>.
  The sort itself belongs to the engine. ECMAScript requires it to be stable and leaves
  the order implementation-defined when the comparator is not a consistent one. It is
  modelled as the in-place insertion sort: each element in turn moves left past the
  elements that compare greater than it. \<open>insert_sorted\<close> works on the sorted prefix held
  in reverse, so that the element next to the new one comes first.

  The model stands for the engine's sort in two cases only, and no statement below goes
  beyond them. When the comparator is consistent on the elements of the array, every
  conforming sort returns the same array, the stable sorted one. When no element of
  the array compares greater than its right neighbour, the model returns the array as it
  is (lemma \<open>sort_js_run\<close>). For \<open>byDateSort\<close>, whose result changes sign when its
  arguments are exchanged, no element then compares less than its left neighbour
  either: the array is one run, and an engine that starts by detecting the initial run,
  as the merge sort of Node.js does, returns it as it is too. On other arrays, those
  where dated and undated items are mixed and some dated item is out of order, the
  engine's binary insertion and galloping merge may place the items differently from
  the model.
\<close>

definition SortCompare :: "('a \<Rightarrow> 'a \<Rightarrow> jsnum) \<Rightarrow> 'a \<Rightarrow> 'a \<Rightarrow> int" where
  "SortCompare comparefn x y = (case comparefn x y of NaN \<Rightarrow> 0 | Num v \<Rightarrow> v)"

fun insert_sorted :: "('a \<Rightarrow> 'a \<Rightarrow> jsnum) \<Rightarrow> 'a \<Rightarrow> 'a list \<Rightarrow> 'a list" where
  "insert_sorted comparefn x [] = [x]"
| "insert_sorted comparefn x (y # ys) =
     (if SortCompare comparefn y x > 0 then y # insert_sorted comparefn x ys
      else x # y # ys)"

definition sort_js :: "('a \<Rightarrow> 'a \<Rightarrow> jsnum) \<Rightarrow> 'a list \<Rightarrow> 'a list" where
  "sort_js comparefn xs = rev (foldl (\<lambda>acc x. insert_sorted comparefn x acc) [] xs)"

section \<open>Parsed feeds, configuration and fetch results\<close>

record channel_info =
  ch_title :: "string option"
  ch_description :: "string option"

text \<open>
  The object that \<open>parser.parseString\<close> resolves to. \<open>feed_title\<close> and \<open>feed_link\<close> are
  its \<open>title\<close> and \<open>link\<close> properties (renamed apart from the item's), \<open>feed\<close> is the
  property the builder adds. The parser always sets \<open>items\<close>, to an array.
\<close>

record contents =
  feedUrl :: "string option"
  feed :: "string option"
  feed_title :: "string option"
  description :: "string option"
  channel :: "channel_info option"
  feed_link :: "string option"
  items :: "item list"

text \<open>
  A response as the builder reads it: the \<open>content-type\<close> header (\<open>None\<close> when
  \<open>headers.get\<close> returns null) and the outcome of reading and parsing the body
  (\<open>None\<close> when \<open>response.text()\<close> or \<open>parser.parseString\<close> rejects).
\<close>

record response =
  content_type :: "string option"
  parsed :: "contents option"

text \<open>One entry of \<open>Promise.allSettled\<close>; the URL travels with both outcomes.\<close>

datatype settled = Rejected | Fulfilled response

type_synonym source = "string \<times> settled"

record config =
  redirects :: "(string \<rightharpoonup> string) option"
  timezone_offset :: "int option"

record cache =
  cache_allItems :: "item list option"
  cache_groups :: "(string \<times> contents list) list option"

datatype error = TypeError | InvalidContentType | NoItems | ParseFailure

definition CONTENT_TYPES :: "string list" where
  "CONTENT_TYPES =
     [''application/json'', ''application/atom+xml'', ''application/rss+xml'',
      ''application/xml'', ''application/octet-stream'', ''text/xml'',
      ''application/x-rss+xml'', ''application/force-download'']"

definition isRSSExtension :: "string \<Rightarrow> bool" where
  "isRSSExtension url = list_ex (\<lambda>ext. endsWith url ext) [''.rss'', ''.xml'', ''.rdf'']"

text \<open>
  Strict equality \<open>===\<close> on the two kinds of value that the empty-items test compares:
  values of different types are never strictly equal.
\<close>

datatype jsval = JBool bool | JNum int

fun strict_equals :: "jsval \<Rightarrow> jsval \<Rightarrow> bool" where
  "strict_equals (JBool a) (JBool b) = (a = b)"
| "strict_equals (JNum a) (JNum b) = (a = b)"
| "strict_equals _ _ = False"

text \<open>\<open>!n\<close> for a number \<open>n\<close> (an array length, never NaN).\<close>

definition js_not_num :: "int \<Rightarrow> jsval" where
  "js_not_num n = JBool (n = 0)"

section \<open>Item normalization\<close>

text \<open>
  Each step returns \<open>Inr\<close> of the item when it completes and \<open>Inl\<close> of the error with the
  item as the throw leaves it: the item object is mutated in place and stays in the feed.
\<close>

type_synonym 'a thrown = "(error \<times> 'a) + 'a"

definition and_then :: "'a thrown \<Rightarrow> ('a \<Rightarrow> 'a thrown) \<Rightarrow> 'a thrown" where
  "and_then r f = (case r of Inl e \<Rightarrow> Inl e | Inr x \<Rightarrow> f x)"

definition date_string :: "platform \<Rightarrow> time_value \<Rightarrow> string" where
  "date_string P tv = (case tv of None \<Rightarrow> ''Invalid Date'' | Some t \<Rightarrow> toLocaleDateString P t)"

text \<open>Step 1: the date attribute under any of its four names, and the display timestamp.\<close>

definition normalize_date :: "platform \<Rightarrow> item \<Rightarrow> item thrown" where
  "normalize_date P i =
     (let dateAttr = js_or (js_or (js_or (pubDate i) (isoDate i)) (date i)) (published i)
      in Inr (i\<lparr>timestamp := Some (date_string P (new_Date P dateAttr))\<rparr>))"

text \<open>
  Step 2: a link without \<open>http\<close> in it is prefixed with the feed's link. Reading
  \<open>contents.link.slice\<close> throws when the feed has no link.
\<close>

definition absolutize_link :: "contents \<Rightarrow> item \<Rightarrow> item thrown" where
  "absolutize_link c i =
     (case link i of
        None \<Rightarrow> Inr i
      | Some l \<Rightarrow>
          if l \<noteq> [] \<and> length (split ''http'' l) = 1 then
            (case feed_link c of
               None \<Rightarrow> Inl (TypeError, i)
             | Some base \<Rightarrow>
                 Inr (i\<lparr>link := Some
                   (if drop (length base - 1) base = ''/'' \<and> take 1 l = ''/''
                    then base @ drop 1 l else base @ l)\<rparr>))
          else Inr i)"

text \<open>
  The regular expression \<open>/(?<=")(?:\\.|[^"\\])*(?=")/g\<close> and the first element of
  \<open>match\<close>. After a double quote the body takes escaped characters and characters other
  than quote and backslash for as long as it can. Every shorter body ends before a
  character that is not a quote, so the match at a position succeeds exactly when the
  longest body is followed by a quote; otherwise the search goes on after the next quote.
  \<open>quoted_body\<close> returns the longest body and the rest of the string.
\<close>

definition dquote :: char where
  "dquote = CHR 0x22"

definition backslash :: char where
  "backslash = CHR 0x5C"

definition line_terminator :: "char \<Rightarrow> bool" where
  "line_terminator c = (c = CHR 0x0A \<or> c = CHR 0x0D)"

fun quoted_body :: "string \<Rightarrow> string \<times> string" where
  "quoted_body [] = ([], [])"
| "quoted_body [c] = (if c = dquote \<or> c = backslash then ([], [c]) else ([c], []))"
| "quoted_body (c # d # cs) =
     (if c = dquote then ([], c # d # cs)
      else if c = backslash then
        (if line_terminator d then ([], c # d # cs)
         else (case quoted_body cs of (b, r) \<Rightarrow> (c # d # b, r)))
      else (case quoted_body (d # cs) of (b, r) \<Rightarrow> (c # b, r)))"

fun first_quoted :: "string \<Rightarrow> string option" where
  "first_quoted [] = None"
| "first_quoted (c # cs) =
     (if c = dquote then
        (case quoted_body cs of
           (b, r) \<Rightarrow> if take 1 r = [dquote] then Some b else first_quoted cs)
      else first_quoted cs)"

text \<open>
  Step 3: the links of a subreddit feed item. \<open>contentLink\<close> and \<open>commentsLink\<close> are the
  third and fourth pieces of the content; a missing content, a missing piece or a piece
  without a quoted string throws, the second one after \<open>item.link\<close> has been assigned.
\<close>

definition reddit_links :: "bool \<Rightarrow> item \<Rightarrow> item thrown" where
  "reddit_links isRedditRSS i =
     (if isRedditRSS \<and> truthy (contentSnippet i)
         \<and> startsWith (the (contentSnippet i)) ''submitted by    '' then
        (case content i of
           None \<Rightarrow> Inl (TypeError, i)
         | Some c \<Rightarrow>
             (let pieces = split ''<a href='' c;
                  contentLink = nth_opt pieces 2;
                  commentsLink = nth_opt pieces 3
              in case Option.bind contentLink first_quoted of
                   None \<Rightarrow> Inl (TypeError, i)
                 | Some l \<Rightarrow>
                     (let i1 = i\<lparr>link := Some l\<rparr>
                      in case Option.bind commentsLink first_quoted of
                           None \<Rightarrow> Inl (TypeError, i1)
                         | Some m \<Rightarrow> Inr (i1\<lparr>comments := Some m\<rparr>))))
      else Inr i)"

text \<open>
  Property lookup \<open>obj[k]\<close> on a plain object goes on to \<open>Object.prototype\<close> when \<open>obj\<close> has
  no own property \<open>k\<close>. \<open>Object_prototype k\<close> is the inherited value as the template literal
  prints it; every inherited value is an object, hence truthy.
\<close>

definition native_function :: "string \<Rightarrow> string" where
  "native_function name = ''function '' @ name @ ''() { [native code] }''"

definition Object_prototype :: "string \<Rightarrow> string option" where
  "Object_prototype k =
     (if k = ''constructor'' then Some (native_function ''Object'')
      else if k = ''__proto__'' then Some ''[object Object]''
      else if k \<in> set [''__defineGetter__'', ''__defineSetter__'', ''hasOwnProperty'',
                ''__lookupGetter__'', ''__lookupSetter__'', ''isPrototypeOf'',
                ''propertyIsEnumerable'', ''toString'', ''valueOf'', ''toLocaleString'']
      then Some (native_function k)
      else None)"

definition get_property :: "(string \<rightharpoonup> string) \<Rightarrow> string \<Rightarrow> string option" where
  "get_property obj k = (case obj k of Some v \<Rightarrow> Some v | None \<Rightarrow> Object_prototype k)"

text \<open>
  Step 4: redirects. \<open>new URL(item.link)\<close> converts a missing link to the string
  \<open>undefined\<close>; a hostname with a single label gives the key \<open>undefined\<close> as well.
\<close>

definition to_string :: "string option \<Rightarrow> string" where
  "to_string v = (case v of None \<Rightarrow> ''undefined'' | Some s \<Rightarrow> s)"

definition apply_redirect :: "platform \<Rightarrow> config \<Rightarrow> item \<Rightarrow> item thrown" where
  "apply_redirect P cfg i =
     (case redirects cfg of
        None \<Rightarrow> Inr i
      | Some table \<Rightarrow>
          (case URL_parse P (to_string (link i)) of
             None \<Rightarrow> Inl (TypeError, i)
           | Some u \<Rightarrow>
               (let tokens = split ''.'' (hostname u);
                    host = (if length tokens < 2 then None
                            else nth_opt tokens (length tokens - 2));
                    redirect = get_property table (to_string host)
                in if truthy redirect
                   then Inr (i\<lparr>link := Some (''https://'' @ the redirect @ pathname u @ search u)\<rparr>)
                   else Inr i)))"

definition normalize_item :: "platform \<Rightarrow> config \<Rightarrow> contents \<Rightarrow> bool \<Rightarrow> item \<Rightarrow> item thrown" where
  "normalize_item P cfg c isRedditRSS i =
     and_then (and_then (and_then (normalize_date P i) (absolutize_link c))
       (reddit_links isRedditRSS)) (apply_redirect P cfg)"

text \<open>\<open>items.forEach\<close>: a throw leaves the items after the failing one untouched.\<close>

fun forEach_items :: "(item \<Rightarrow> item thrown) \<Rightarrow> item list \<Rightarrow> item list thrown" where
  "forEach_items f [] = Inr []"
| "forEach_items f (x # xs) =
     (case f x of
        Inl (e, x') \<Rightarrow> Inl (e, x' # xs)
      | Inr x' \<Rightarrow>
          (case forEach_items f xs of
             Inl (e, xs') \<Rightarrow> Inl (e, x' # xs')
           | Inr xs' \<Rightarrow> Inr (x' # xs')))"

section \<open>The build\<close>

record state =
  allItems :: "item list"
  errors :: "string list"
  groupContents :: "(string \<times> contents list) list"

text \<open>
  \<open>groupContents\<close> is an object; the state holds its own enumerable properties, the
  entries that \<open>Object.entries\<close> lists, in insertion order (the order of
  \<open>Object.entries\<close> for keys that are not array indices). \<open>assign_group\<close> is
  \<open>groupContents[name] = []\<close> and \<open>push_group\<close> is \<open>groupContents[name].push(c)\<close>.
  For the name \<open>__proto__\<close> the assignment goes to the accessor that every object
  inherits: it makes the new array the prototype of \<open>groupContents\<close> and creates no
  property, and the push goes to that array; the entries are as before.
\<close>

fun set_entry :: "string \<Rightarrow> (string \<times> contents list) list \<Rightarrow> (string \<times> contents list) list" where
  "set_entry name [] = [(name, [])]"
| "set_entry name ((n, fs) # gs) =
     (if n = name then (n, []) # gs else (n, fs) # set_entry name gs)"

definition assign_group :: "string \<Rightarrow> (string \<times> contents list) list \<Rightarrow> (string \<times> contents list) list" where
  "assign_group name gs = (if name = ''__proto__'' then gs else set_entry name gs)"

definition push_group :: "string \<Rightarrow> contents \<Rightarrow> (string \<times> contents list) list \<Rightarrow> (string \<times> contents list) list" where
  "push_group name c gs =
     (if name = ''__proto__'' then gs
      else map (\<lambda>(n, fs). if n = name then (n, fs @ [c]) else (n, fs)) gs)"

definition itemCompare :: "platform \<Rightarrow> item \<Rightarrow> item \<Rightarrow> jsnum" where
  "itemCompare P a b = byDateSort P (Some a) (Some b)"

definition feedCompare :: "platform \<Rightarrow> contents \<Rightarrow> contents \<Rightarrow> jsnum" where
  "feedCompare P a b = byDateSort P (nth_opt (items a) 0) (nth_opt (items b) 0)"

definition feedTitle :: "contents \<Rightarrow> string option" where
  "feedTitle c =
     js_or (js_or (js_or (js_or (feed_title c) (description c))
       (js_and_prop (channel c) ch_title)) (js_and_prop (channel c) ch_description))
       (feed_link c)"

definition truncateTitle :: "string \<Rightarrow> string" where
  "truncateTitle t = (if length t > 100 then take 97 t @ ''...'' else t)"

text \<open>
  The content-type test: the header up to its first \<open>;\<close> is not in the list and the URL
  has no feed extension.
\<close>

definition invalid_content_type :: "string \<Rightarrow> string \<Rightarrow> bool" where
  "invalid_content_type header url =
     (let contentType = nth_opt (split '';'' header) 0
      in \<not> (case contentType of None \<Rightarrow> False | Some t \<Rightarrow> t \<in> set CONTENT_TYPES)
         \<and> \<not> isRSSExtension url)"

definition isRedditRSS :: "contents \<Rightarrow> bool" where
  "isRedditRSS c = (truthy (feedUrl c) \<and> includes_str (to_string (feedUrl c)) ''reddit.com/r/'')"

text \<open>
  The body of the \<open>try\<close> block for one fulfilled fetch. The parsed feed is pushed to its
  group before its items are normalized, and the pushed object is the one that the
  normalization mutates: when an item throws, the state that reaches the \<open>catch\<close> holds
  the feed with its items as the throw left them.
\<close>

definition try_source :: "platform \<Rightarrow> config \<Rightarrow> string \<Rightarrow> string \<Rightarrow> response \<Rightarrow> state \<Rightarrow> state thrown" where
  "try_source P cfg groupName url resp st =
     (case content_type resp of
        None \<Rightarrow> Inl (TypeError, st)
      | Some header \<Rightarrow>
          if invalid_content_type header url then Inl (InvalidContentType, st)
          else
            (case parsed resp of
               None \<Rightarrow> Inl (ParseFailure, st)
             | Some c \<Rightarrow>
                 if strict_equals (js_not_num (int (length (items c)))) (JNum 0)
                 then Inl (NoItems, st)
                 else
                   (case feedTitle c of
                      None \<Rightarrow> Inl (TypeError, st)
                    | Some t \<Rightarrow>
                        (let c1 = c\<lparr>feed := Some url, feed_title := Some (truncateTitle t)\<rparr>;
                             sorted = sort_js (itemCompare P) (items c1)
                         in case forEach_items (normalize_item P cfg c1 (isRedditRSS c)) sorted of
                              Inl (e, its) \<Rightarrow>
                                Inl (e, st\<lparr>groupContents :=
                                  push_group groupName (c1\<lparr>items := its\<rparr>) (groupContents st)\<rparr>)
                            | Inr its \<Rightarrow>
                                Inr (st\<lparr>groupContents :=
                                       push_group groupName (c1\<lparr>items := its\<rparr>) (groupContents st),
                                     allItems := allItems st @ its\<rparr>)))))"

definition process_result :: "platform \<Rightarrow> config \<Rightarrow> string \<Rightarrow> state \<Rightarrow> source \<Rightarrow> state" where
  "process_result P cfg groupName st src =
     (case src of
        (url, Rejected) \<Rightarrow> st\<lparr>errors := errors st @ [url]\<rparr>
      | (url, Fulfilled resp) \<Rightarrow>
          (case try_source P cfg groupName url resp st of
             Inl (e, st') \<Rightarrow> st'\<lparr>errors := errors st' @ [url]\<rparr>
           | Inr st' \<Rightarrow> st'))"

definition process_group :: "platform \<Rightarrow> config \<Rightarrow> state \<Rightarrow> string \<times> source list \<Rightarrow> state" where
  "process_group P cfg st g =
     (case g of
        (groupName, results) \<Rightarrow>
          foldl (process_result P cfg groupName)
            (st\<lparr>groupContents := assign_group groupName (groupContents st)\<rparr>) results)"

text \<open>
  What \<open>build\<close> hands to the template (\<open>allItems\<close>, \<open>groups\<close>, \<open>errors\<close>) and what it
  writes to the cache file, if anything. \<open>feeds\<close> lists the groups in the order of the
  \<open>for ... in\<close> loop, each with the settled fetches of its sources in the order of
  \<open>Object.values\<close>.
\<close>

record rendered =
  out_allItems :: "item list"
  out_groups :: "(string \<times> contents list) list"
  out_errors :: "string list"
  written :: "((string \<times> contents list) list \<times> item list) option"

definition build :: "platform \<Rightarrow> config \<Rightarrow> (string \<times> source list) list \<Rightarrow> cache \<Rightarrow> bool \<Rightarrow> rendered" where
  "build P cfg feeds cch writeCache =
     (let st0 = \<lparr>allItems = (case cache_allItems cch of Some xs \<Rightarrow> xs | None \<Rightarrow> []),
                 errors = [], groupContents = []\<rparr>;
          st = foldl (process_group P cfg) st0 feeds;
          groups = (case cache_groups cch of Some gs \<Rightarrow> gs | None \<Rightarrow> groupContents st)
      in \<lparr>out_allItems = sort_js (itemCompare P) (allItems st),
          out_groups = map (\<lambda>(n, fs). (n, sort_js (feedCompare P) fs)) groups,
          out_errors = errors st,
          written = (if writeCache then Some (groups, allItems st) else None)\<rparr>)"

section \<open>A concrete platform for examples\<close>

text \<open>
  An instance of the platform, for evaluating the builder on concrete inputs. \<open>iso_parse\<close>
  reads the one date format that ECMAScript fixes and that \<open>toISOString\<close> emits,
  \<open>YYYY-MM-DDTHH:mm:ss.sssZ\<close>, and takes every other string as an invalid date;
  \<open>en_US_date\<close> prints a time value as \<open>M/D/YYYY\<close> in UTC; \<open>simple_URL\<close> reads
  \<open>http://host/path?query\<close> and \<open>https://host/path?query\<close> with a host of lower-case
  letters and dots and a path and query of letters, digits and a few marks, and rejects
  everything else. On the strings they accept they agree with the engine.
\<close>

fun read_digits :: "int \<Rightarrow> string \<Rightarrow> int option" where
  "read_digits acc [] = Some acc"
| "read_digits acc (c # cs) =
     (if c \<in> set ''0123456789'' then read_digits (10 * acc + (of_char c - 48)) cs else None)"

definition days_from_civil :: "int \<Rightarrow> int \<Rightarrow> int \<Rightarrow> int" where
  "days_from_civil y m d =
     (let y1 = (if m \<le> 2 then y - 1 else y);
          era = y1 div 400;
          yoe = y1 - era * 400;
          doy = (153 * (if m > 2 then m - 3 else m + 9) + 2) div 5 + d - 1;
          doe = yoe * 365 + yoe div 4 - yoe div 100 + doy
      in era * 146097 + doe - 719468)"

definition civil_from_days :: "int \<Rightarrow> int \<times> int \<times> int" where
  "civil_from_days z =
     (let z1 = z + 719468;
          era = z1 div 146097;
          doe = z1 - era * 146097;
          yoe = (doe - doe div 1460 + doe div 36524 - doe div 146096) div 365;
          doy = doe - (365 * yoe + yoe div 4 - yoe div 100);
          mp = (5 * doy + 2) div 153;
          d = doy - (153 * mp + 2) div 5 + 1;
          m = (if mp < 10 then mp + 3 else mp - 9)
      in (yoe + era * 400 + (if m \<le> 2 then 1 else 0), m, d))"

definition days_in_month :: "int \<Rightarrow> int \<Rightarrow> int" where
  "days_in_month y m =
     (if m = 2 then (if y mod 4 = 0 \<and> (y mod 100 \<noteq> 0 \<or> y mod 400 = 0) then 29 else 28)
      else if m \<in> {4, 6, 9, 11} then 30 else 31)"

definition iso_parse :: "string \<Rightarrow> time_value" where
  "iso_parse s =
     (if length s = 24 \<and> s ! 4 = CHR ''-'' \<and> s ! 7 = CHR ''-'' \<and> s ! 10 = CHR ''T''
         \<and> s ! 13 = CHR '':'' \<and> s ! 16 = CHR '':'' \<and> s ! 19 = CHR ''.'' \<and> s ! 23 = CHR ''Z''
      then
        (case (read_digits 0 (take 4 s), read_digits 0 (take 2 (drop 5 s)),
               read_digits 0 (take 2 (drop 8 s)), read_digits 0 (take 2 (drop 11 s)),
               read_digits 0 (take 2 (drop 14 s)), read_digits 0 (take 2 (drop 17 s)),
               read_digits 0 (take 3 (drop 20 s))) of
           (Some y, Some m, Some d, Some h, Some mi, Some sec, Some ms) \<Rightarrow>
             if 1 \<le> m \<and> m \<le> 12 \<and> 1 \<le> d \<and> d \<le> days_in_month y m
                \<and> h \<le> 23 \<and> mi \<le> 59 \<and> sec \<le> 59
             then Some ((((days_from_civil y m d * 24 + h) * 60 + mi) * 60 + sec) * 1000 + ms)
             else None
         | _ \<Rightarrow> None)
      else None)"

fun show_nat :: "nat \<Rightarrow> string" where
  "show_nat n =
     (if n < 10 then [char_of (48 + n)] else show_nat (n div 10) @ [char_of (48 + n mod 10)])"

definition en_US_date :: "int \<Rightarrow> string" where
  "en_US_date t =
     (case civil_from_days (t div 86400000) of
        (y, m, d) \<Rightarrow> show_nat (nat m) @ ''/'' @ show_nat (nat d) @ ''/'' @ show_nat (nat y))"

definition strip_prefix :: "string \<Rightarrow> string \<Rightarrow> string option" where
  "strip_prefix p s = (if prefix p s then Some (drop (length p) s) else None)"

definition host_char :: "char \<Rightarrow> bool" where
  "host_char c = (c \<in> set ''abcdefghijklmnopqrstuvwxyz.'')"

definition path_char :: "char \<Rightarrow> bool" where
  "path_char c =
     (c \<in> set ''abcdefghijklmnopqrstuvwxyzABCDEFGHIJKLMNOPQRSTUVWXYZ0123456789/_-=&?'')"

definition simple_URL :: "string \<Rightarrow> url option" where
  "simple_URL s =
     (case (case strip_prefix ''https://'' s of
              Some r \<Rightarrow> Some r | None \<Rightarrow> strip_prefix ''http://'' s) of
        None \<Rightarrow> None
      | Some r \<Rightarrow>
          (let host = takeWhile (\<lambda>c. c \<noteq> CHR ''/'' \<and> c \<noteq> CHR ''?'') r;
               rest = dropWhile (\<lambda>c. c \<noteq> CHR ''/'' \<and> c \<noteq> CHR ''?'') r;
               path = takeWhile (\<lambda>c. c \<noteq> CHR ''?'') rest;
               query = dropWhile (\<lambda>c. c \<noteq> CHR ''?'') rest
           in if host = [] \<or> \<not> list_all host_char host \<or> hd host = CHR ''.''
                 \<or> last host = CHR ''.'' \<or> \<not> list_all path_char rest
              then None
              else Some \<lparr>hostname = host,
                         pathname = (if path = [] then ''/'' else path),
                         search = (if query = ''?'' then [] else query)\<rparr>))"

definition node_platform :: platform where
  "node_platform =
     \<lparr>Date_parse = iso_parse, toLocaleDateString = en_US_date, URL_parse = simple_URL\<rparr>"

section \<open>Notions used in the statements\<close>

text \<open>
  The date of an item as the sort sees it: the time value of a valid \<open>Date\<close> that
  \<open>parseDate\<close> returns, \<open>None\<close> when the date is missing or unparseable.
\<close>

definition parsed_date :: "platform \<Rightarrow> item option \<Rightarrow> int option" where
  "parsed_date P it = (case parseDate P it of Some (Some t) \<Rightarrow> Some t | _ \<Rightarrow> None)"

definition undated :: "platform \<Rightarrow> item \<Rightarrow> bool" where
  "undated P i = (parsed_date P (Some i) = None)"

text \<open>
  \<open>date_ge P a b\<close>: when both items have a date, the date of \<open>a\<close> is not before the date
  of \<open>b\<close>. A list is \<open>descending\<close> when this holds for every pair of positions
  \<open>i < j\<close>.
\<close>

definition date_ge :: "platform \<Rightarrow> item \<Rightarrow> item \<Rightarrow> bool" where
  "date_ge P a b =
     (case (parsed_date P (Some a), parsed_date P (Some b)) of
        (Some s, Some t) \<Rightarrow> s \<ge> t
      | _ \<Rightarrow> True)"

definition descending :: "platform \<Rightarrow> item list \<Rightarrow> bool" where
  "descending P xs = sorted_wrt (date_ge P) xs"

text \<open>The value that a step leaves behind, whether it completed or threw.\<close>

definition after :: "'a thrown \<Rightarrow> 'a" where
  "after r = (case r of Inl (e, x) \<Rightarrow> x | Inr x \<Rightarrow> x)"

definition completes :: "'a thrown \<Rightarrow> bool" where
  "completes r = (case r of Inl e \<Rightarrow> False | Inr x \<Rightarrow> True)"

text \<open>An item with nothing set, and the live mode's empty cache.\<close>

definition empty_item :: item where
  "empty_item =
     \<lparr>title = None, link = None, pubDate = None, isoDate = None, date = None,
      published = None, contentSnippet = None, content = None, comments = None,
      timestamp = None\<rparr>"

definition no_cache :: cache where
  "no_cache = \<lparr>cache_allItems = None, cache_groups = None\<rparr>"

section \<open>Example inputs\<close>

definition example_config :: config where
  "example_config = \<lparr>redirects = None, timezone_offset = None\<rparr>"

definition reddit_config :: config where
  "reddit_config =
     \<lparr>redirects = Some [''reddit'' \<mapsto> ''old.reddit.com''], timezone_offset = None\<rparr>"

definition item_old :: item where
  "item_old = empty_item\<lparr>title := Some ''old'', link := Some ''https://example.com/a'',
     isoDate := Some ''2024-01-01T00:00:00.000Z''\<rparr>"

definition item_new :: item where
  "item_new = empty_item\<lparr>title := Some ''new'', link := Some ''https://example.com/b'',
     isoDate := Some ''2024-01-02T00:00:00.000Z''\<rparr>"

definition item_undated :: item where
  "item_undated = empty_item\<lparr>title := Some ''undated'', link := Some ''https://example.com/u''\<rparr>"

definition item_garbage :: item where
  "item_garbage = empty_item\<lparr>title := Some ''garbage'', link := Some ''https://example.com/g'',
     pubDate := Some ''garbage''\<rparr>"

definition item_published :: item where
  "item_published = empty_item\<lparr>title := Some ''atom'', link := Some ''https://example.com/p'',
     published := Some ''2024-01-02T00:00:00.000Z''\<rparr>"

definition example_feed :: "item list \<Rightarrow> contents" where
  "example_feed its =
     \<lparr>feedUrl = Some ''https://example.com/feed.xml'', feed = None,
      feed_title = Some ''Example'', description = None, channel = None,
      feed_link = Some ''https://example.com/'', items = its\<rparr>"

definition xml_response :: "contents \<Rightarrow> response" where
  "xml_response c = \<lparr>content_type = Some ''application/xml; charset=utf-8'', parsed = Some c\<rparr>"

definition example_url :: string where
  "example_url = ''https://example.com/feed.xml''"

definition long_title :: string where
  "long_title = replicate 150 (CHR ''a'')"

definition reddit_item :: item where
  "reddit_item = empty_item\<lparr>title := Some ''post'',
     link := Some ''https://www.reddit.com/r/foo/comments/1/post/'',
     isoDate := Some ''2024-01-02T00:00:00.000Z'',
     contentSnippet := Some ''submitted by    /u/alice'',
     content := Some ''<table> submitted by <a href=x> /u/alice </a> </table>''\<rparr>"

definition reddit_feed :: contents where
  "reddit_feed =
     \<lparr>feedUrl = Some ''https://www.reddit.com/r/foo/.rss'', feed = None,
      feed_title = Some ''foo'', description = None, channel = None,
      feed_link = Some ''https://www.reddit.com/r/foo/'', items = [reddit_item]\<rparr>"

definition reddit_url :: string where
  "reddit_url = ''https://www.reddit.com/r/foo/.rss''"

definition html_source :: source where
  "html_source =
     (''https://example.org/page'',
      Fulfilled \<lparr>content_type = Some ''text/html; charset=utf-8'', parsed = None\<rparr>)"

definition down_source :: source where
  "down_source = (''https://down.example.net/feed'', Rejected)"

definition good_source :: source where
  "good_source = (example_url, Fulfilled (xml_response (example_feed [item_new])))"

definition headerless_source :: source where
  "headerless_source =
     (''https://example.net/feed'',
      Fulfilled \<lparr>content_type = None, parsed = Some (example_feed [item_old])\<rparr>)"

section \<open>The sort on dated and undated items\<close>

lemma set_insert_sorted: "set (insert_sorted c x ys) = insert x (set ys)"
  by (induction ys) auto

lemma set_foldl_insert_sorted:
  "set (foldl (\<lambda>acc x. insert_sorted c x acc) acc xs) = set acc \<union> set xs"
  by (induction xs arbitrary: acc) (auto simp: set_insert_sorted)

lemma set_sort_js: "set (sort_js c xs) = set xs"
  by (simp add: sort_js_def set_foldl_insert_sorted)

lemma sort_js_snoc:
  "sort_js c (xs @ [x]) = rev (insert_sorted c x (rev (sort_js c xs)))"
  by (simp add: sort_js_def)

lemma sort_js_run:
  "successively (\<lambda>y x. \<not> SortCompare c y x > 0) xs \<Longrightarrow> sort_js c xs = xs"
proof (induction xs rule: rev_induct)
  case Nil
  show ?case by (simp add: sort_js_def)
next
  case (snoc x xs)
  have run: "successively (\<lambda>y x. \<not> SortCompare c y x > 0) xs"
    using snoc.prems by (simp add: successively_append_iff)
  have step: "sort_js c (xs @ [x]) = rev (insert_sorted c x (rev xs))"
    by (simp only: sort_js_snoc snoc.IH[OF run])
  show ?case
  proof (cases xs rule: rev_cases)
    case Nil
    then show ?thesis by (simp add: sort_js_def)
  next
    case (snoc ys y)
    have "\<not> SortCompare c y x > 0"
      using \<open>successively (\<lambda>y x. \<not> SortCompare c y x > 0) (xs @ [x])\<close> snoc
      by (simp add: successively_append_iff)
    then have "insert_sorted c x (rev xs) = x # rev xs"
      using snoc by simp
    then show ?thesis using step by simp
  qed
qed

lemma length_insert_sorted: "length (insert_sorted c x ys) = Suc (length ys)"
  by (induction ys) auto

lemma byDateSort_dated:
  "parsed_date P a = Some s \<Longrightarrow> parsed_date P b = Some t \<Longrightarrow> byDateSort P a b = Num (t - s)"
  by (auto simp: parsed_date_def byDateSort_def split: option.splits)

lemma byDateSort_undated:
  "parsed_date P a = None \<or> parsed_date P b = None \<Longrightarrow> byDateSort P a b = Num 0 \<or> byDateSort P a b = NaN"
  by (auto simp: parsed_date_def byDateSort_def split: option.splits)

lemma SortCompare_undated:
  "parsed_date P (k a) = None \<or> parsed_date P (k b) = None \<Longrightarrow>
   SortCompare (\<lambda>a b. byDateSort P (k a) (k b)) a b = 0"
  using byDateSort_undated[of P "k a" "k b"] by (auto simp: SortCompare_def)

lemma SortCompare_dated:
  "parsed_date P (k a) = Some s \<Longrightarrow> parsed_date P (k b) = Some t \<Longrightarrow>
   SortCompare (\<lambda>a b. byDateSort P (k a) (k b)) a b = t - s"
  by (simp add: SortCompare_def byDateSort_dated)

lemma itemCompare_fun: "itemCompare P = (\<lambda>a b. byDateSort P (Some a) (Some b))"
  by (intro ext) (simp add: itemCompare_def)

lemma feedCompare_fun:
  "feedCompare P = (\<lambda>a b. byDateSort P (nth_opt (items a) 0) (nth_opt (items b) 0))"
  by (intro ext) (simp add: feedCompare_def)

lemma run_of_undated:
  "list_all (undated P) xs \<Longrightarrow>
   successively (\<lambda>y x. \<not> SortCompare (itemCompare P) y x > 0) xs"
proof (induction xs rule: induct_list012)
  case 1
  show ?case by simp
next
  case (2 x)
  show ?case by simp
next
  case (3 y x zs)
  have "SortCompare (itemCompare P) y x = 0"
    using 3(3) SortCompare_undated[of P Some y x] by (simp add: itemCompare_fun undated_def)
  then show ?case using 3 by simp
qed

lemma sorted_insert_sorted:
  assumes "\<forall>z \<in> set (x # ys). parsed_date P (Some z) \<noteq> None"
    and "sorted_wrt (\<lambda>a b. date_ge P b a) ys"
  shows "sorted_wrt (\<lambda>a b. date_ge P b a) (insert_sorted (itemCompare P) x ys)"
  using assms
proof (induction ys)
  case Nil
  show ?case by simp
next
  case (Cons y ys)
  from Cons.prems obtain s t where s: "parsed_date P (Some x) = Some s"
    and t: "parsed_date P (Some y) = Some t" by auto
  have cmp: "SortCompare (itemCompare P) y x = s - t"
    using SortCompare_dated[of P Some y t x s] s t by (simp add: itemCompare_fun)
  show ?case
  proof (cases "s - t > 0")
    case True
    have "date_ge P x y" using s t True by (simp add: date_ge_def)
    moreover have "sorted_wrt (\<lambda>a b. date_ge P b a) (insert_sorted (itemCompare P) x ys)"
      using Cons by simp
    ultimately show ?thesis using Cons.prems True cmp
      by (auto simp: set_insert_sorted)
  next
    case False
    then have yx: "date_ge P y x" using s t by (simp add: date_ge_def)
    have "\<forall>z \<in> set ys. date_ge P z x"
    proof
      fix z assume z: "z \<in> set ys"
      then have "date_ge P z y" using Cons.prems by simp
      moreover obtain u where "parsed_date P (Some z) = Some u" using z Cons.prems by auto
      ultimately show "date_ge P z x" using s t False by (simp add: date_ge_def)
    qed
    then show ?thesis using Cons.prems False cmp yx by auto
  qed
qed

lemma sorted_foldl_insert_sorted:
  assumes "\<forall>z \<in> set acc \<union> set xs. parsed_date P (Some z) \<noteq> None"
    and "sorted_wrt (\<lambda>a b. date_ge P b a) acc"
  shows "sorted_wrt (\<lambda>a b. date_ge P b a)
           (foldl (\<lambda>acc x. insert_sorted (itemCompare P) x acc) acc xs)"
  using assms
proof (induction xs arbitrary: acc)
  case Nil
  then show ?case by simp
next
  case (Cons x xs)
  have "sorted_wrt (\<lambda>a b. date_ge P b a) (insert_sorted (itemCompare P) x acc)"
    using Cons.prems by (intro sorted_insert_sorted) auto
  moreover have "\<forall>z \<in> set (insert_sorted (itemCompare P) x acc) \<union> set xs. parsed_date P (Some z) \<noteq> None"
    using Cons.prems by (auto simp: set_insert_sorted)
  ultimately show ?case using Cons.IH by simp
qed

lemma descending_sort_js:
  assumes "\<forall>z \<in> set xs. parsed_date P (Some z) \<noteq> None"
  shows "descending P (sort_js (itemCompare P) xs)"
  using sorted_foldl_insert_sorted[of "[]" xs P] assms
  by (simp add: descending_def sort_js_def sorted_wrt_rev)


lemma after_and_then:
  "after (and_then r f) = (case r of Inl (e, x) \<Rightarrow> x | Inr x \<Rightarrow> after (f x))"
  by (auto simp: after_def and_then_def split: sum.splits)

lemma absolutize_link_frame:
  "timestamp (after (absolutize_link c i)) = timestamp i"
  "isoDate (after (absolutize_link c i)) = isoDate i"
  "pubDate (after (absolutize_link c i)) = pubDate i"
  by (auto simp: absolutize_link_def after_def split: option.splits)

lemma reddit_links_frame:
  "timestamp (after (reddit_links r i)) = timestamp i"
  "isoDate (after (reddit_links r i)) = isoDate i"
  "pubDate (after (reddit_links r i)) = pubDate i"
  by (auto simp: reddit_links_def after_def Let_def split: option.splits)

lemma apply_redirect_frame:
  "timestamp (after (apply_redirect P cfg i)) = timestamp i"
  "isoDate (after (apply_redirect P cfg i)) = isoDate i"
  "pubDate (after (apply_redirect P cfg i)) = pubDate i"
  by (auto simp: apply_redirect_def after_def Let_def split: option.splits)

lemma normalize_date_after:
  "normalize_date P i = Inr (i\<lparr>timestamp := Some (date_string P (new_Date P
     (js_or (js_or (js_or (pubDate i) (isoDate i)) (date i)) (published i))))\<rparr>)"
  by (simp add: normalize_date_def)

lemma after_and_then_field:
  assumes "\<And>x. g (after (f x)) = g x"
  shows "g (after (and_then r f)) = g (after r)"
  using assms by (cases r) (auto simp: after_def and_then_def)

lemma normalize_item_field:
  assumes "\<And>x. g (after (absolutize_link c x)) = g x"
    and "\<And>x. g (after (reddit_links r x)) = g x"
    and "\<And>x. g (after (apply_redirect P cfg x)) = g x"
  shows "g (after (normalize_item P cfg c r i)) = g (after (normalize_date P i))"
  unfolding normalize_item_def
  by (simp add: after_and_then_field[where g = g] assms)

lemma after_simps [simp]: "after (Inr x) = x" "after (Inl (e, x)) = x"
  by (simp_all add: after_def)

lemma normalize_item_frame:
  "timestamp (after (normalize_item P cfg c r i)) =
     Some (date_string P (new_Date P (js_or (js_or (js_or (pubDate i) (isoDate i)) (date i)) (published i))))"
  "isoDate (after (normalize_item P cfg c r i)) = isoDate i"
  "pubDate (after (normalize_item P cfg c r i)) = pubDate i"
  using normalize_item_field[where g = timestamp, of c r P cfg i]
    normalize_item_field[where g = isoDate, of c r P cfg i]
    normalize_item_field[where g = pubDate, of c r P cfg i]
  by (simp_all add: absolutize_link_frame reddit_links_frame apply_redirect_frame
      normalize_date_after)

lemma parseDate_frame:
  "isoDate a = isoDate b \<Longrightarrow> pubDate a = pubDate b \<Longrightarrow> parseDate P (Some a) = parseDate P (Some b)"
  by (simp add: parseDate_def)

lemma parseDate_missing:
  "\<not> truthy (isoDate i) \<Longrightarrow> \<not> truthy (pubDate i) \<Longrightarrow> parseDate P (Some i) = None"
  by (simp add: parseDate_def js_or_def)

lemma byDateSort_missing:
  "parseDate P a = None \<or> parseDate P b = None \<Longrightarrow> byDateSort P a b = Num 0"
  by (auto simp: byDateSort_def split: option.splits)

lemma byDateSort_invalid:
  "parseDate P a \<noteq> None \<Longrightarrow> parseDate P b \<noteq> None \<Longrightarrow>
   parsed_date P a = None \<or> parsed_date P b = None \<Longrightarrow> byDateSort P a b = NaN"
  by (auto simp: byDateSort_def parsed_date_def split: option.splits)

text \<open>
  Claim C9. The comparator reads only \<open>isoDate\<close> and \<open>pubDate\<close>, while the timestamp also
  accepts \<open>date\<close> and \<open>published\<close>. An item whose date is only under \<open>date\<close> or
  \<open>published\<close>, and parseable there, gets the locale string of that date as its timestamp
  and compares as equal (the comparator returns \<open>0\<close>) with every other item, before and
  after normalization, in the item sorts and, as the first item of a feed, in the feed
  ordering.
\<close>

theorem date_or_published_only:
  assumes "\<not> truthy (isoDate i)" and "\<not> truthy (pubDate i)"
    and "js_or (date i) (published i) = Some d" and "Date_parse P d = Some t"
    and "i' = after (normalize_item P cfg c r i)"
  shows "timestamp i' = Some (toLocaleDateString P t)
     \<and> byDateSort P (Some i) other = Num 0 \<and> byDateSort P other (Some i) = Num 0
     \<and> byDateSort P (Some i') other = Num 0 \<and> byDateSort P other (Some i') = Num 0
     \<and> itemCompare P i j = Num 0 \<and> itemCompare P j i = Num 0
     \<and> itemCompare P i' j = Num 0 \<and> itemCompare P j i' = Num 0
     \<and> (nth_opt (items f) 0 = Some i' \<longrightarrow> feedCompare P f g = Num 0 \<and> feedCompare P g f = Num 0)"
proof -
  have attr: "js_or (js_or (js_or (pubDate i) (isoDate i)) (date i)) (published i) = Some d"
    using assms(1-3) by (simp add: js_or_def)
  have ts: "timestamp i' = Some (toLocaleDateString P t)"
    using assms(4,5) by (simp add: normalize_item_frame attr new_Date_def date_string_def)
  have mi: "parseDate P (Some i) = None"
    using assms(1,2) by (rule parseDate_missing)
  have mi': "parseDate P (Some i') = None"
    using assms(1,2,5) by (simp add: parseDate_missing normalize_item_frame)
  show ?thesis
    using ts mi mi' by (simp add: byDateSort_missing itemCompare_def feedCompare_def)
qed

theorem date_or_published_only_witness:
  "timestamp (after (normalize_item node_platform example_config (example_feed []) False item_published))
     = Some ''1/2/2024''
   \<and> itemCompare node_platform item_published item_old = Num 0
   \<and> itemCompare node_platform item_new item_published = Num 0
   \<and> feedCompare node_platform
        (example_feed [after (normalize_item node_platform example_config (example_feed []) False item_published)])
        (example_feed [item_old]) = Num 0"
proof -
  have h1: "\<not> truthy (isoDate item_published)" by code_simp
  have h2: "\<not> truthy (pubDate item_published)" by code_simp
  have h3: "js_or (date item_published) (published item_published) = Some ''2024-01-02T00:00:00.000Z''"
    by code_simp
  have h4: "Date_parse node_platform ''2024-01-02T00:00:00.000Z'' = Some 1704153600000"
    by code_simp
  have h5: "toLocaleDateString node_platform 1704153600000 = ''1/2/2024''" by code_simp
  have h6: "nth_opt (items (example_feed [after (normalize_item node_platform example_config (example_feed []) False item_published)])) 0
    = Some (after (normalize_item node_platform example_config (example_feed []) False item_published))"
    by (simp add: example_feed_def)
  show ?thesis
    using date_or_published_only[OF h1 h2 h3 h4 refl, of example_config "example_feed []" False]
      h5 h6 by metis
qed

text \<open>
  Claim C4, as amended. When either side has no date the comparator returns \<open>0\<close>. When
  both sides have a date string and either does not parse, it returns NaN, not \<open>0\<close>;
  the sort's comparison step reads NaN as \<open>+0\<close>, so the pair still counts as equal.
  Consequently a sequence that consists only of items with a missing or unparseable date
  is left in its order by the sort. Nothing is stated about the order of such items when
  dated items are among them: the comparator is then not a consistent one.
\<close>

theorem comparator_missing_or_unparseable:
  "(parseDate P a = None \<or> parseDate P b = None \<longrightarrow> byDateSort P a b = Num 0)
   \<and> (parseDate P a \<noteq> None \<and> parseDate P b \<noteq> None
        \<and> (parsed_date P a = None \<or> parsed_date P b = None) \<longrightarrow> byDateSort P a b = NaN)
   \<and> (parsed_date P a = None \<or> parsed_date P b = None \<longrightarrow> SortCompare (byDateSort P) a b = 0)
   \<and> (list_all (undated P) xs \<longrightarrow> sort_js (itemCompare P) xs = xs)"
proof -
  have "list_all (undated P) xs \<longrightarrow> sort_js (itemCompare P) xs = xs"
    using sort_js_run[OF run_of_undated, of P xs] by blast
  moreover have "parsed_date P a = None \<or> parsed_date P b = None \<longrightarrow> SortCompare (byDateSort P) a b = 0"
    using SortCompare_undated[of P "\<lambda>x. x" a b] by simp
  ultimately show ?thesis
    using byDateSort_missing[of P a b] byDateSort_invalid[of P a b] by blast
qed

theorem comparator_unparseable_counterexample:
  "parsed_date node_platform (Some item_garbage) = None
   \<and> byDateSort node_platform (Some item_garbage) (Some item_new) \<noteq> Num 0"
  by code_simp

theorem comparator_missing_or_unparseable_witness:
  "byDateSort node_platform (Some item_undated) (Some item_new) = Num 0
   \<and> byDateSort node_platform (Some item_garbage) (Some item_new) = NaN
   \<and> SortCompare (byDateSort node_platform) (Some item_garbage) (Some item_new) = 0
   \<and> list_all (undated node_platform) [item_garbage, item_undated]
   \<and> sort_js (itemCompare node_platform) [item_garbage, item_undated]
      = [item_garbage, item_undated]"
proof -
  have h1: "parseDate node_platform (Some item_undated) = None" by code_simp
  have h2: "parseDate node_platform (Some item_garbage) \<noteq> None"
    "parseDate node_platform (Some item_new) \<noteq> None"
    "parsed_date node_platform (Some item_garbage) = None" by code_simp+
  have h3: "list_all (undated node_platform) [item_garbage, item_undated]" by code_simp
  show ?thesis
    using comparator_missing_or_unparseable[of node_platform "Some item_undated" "Some item_new"
        "[item_garbage, item_undated]"]
      comparator_missing_or_unparseable[of node_platform "Some item_garbage" "Some item_new" "[]"]
      h1 h2 h3 by simp
qed

text \<open>
  Claim C1, as amended. When every item of \<open>allItems\<close> has a parseable date, \<open>allItems\<close>
  is in descending order of date after the build. With an undated item between two dated
  ones the order of the dated ones is not established.
\<close>

theorem allItems_descending_when_all_dated:
  assumes "list_all (\<lambda>i. \<not> undated P i) (out_allItems (build P cfg feeds cch w))"
  shows "descending P (out_allItems (build P cfg feeds cch w))"
proof -
  let ?st = "foldl (process_group P cfg)
     \<lparr>allItems = (case cache_allItems cch of Some xs \<Rightarrow> xs | None \<Rightarrow> []),
      errors = [], groupContents = []\<rparr> feeds"
  have out: "out_allItems (build P cfg feeds cch w) = sort_js (itemCompare P) (allItems ?st)"
    by (simp add: build_def Let_def)
  have "\<forall>z \<in> set (allItems ?st). parsed_date P (Some z) \<noteq> None"
    using assms unfolding out by (simp add: list_all_iff set_sort_js undated_def)
  then show ?thesis unfolding out by (rule descending_sort_js)
qed

theorem allItems_descending_counterexample:
  "\<not> descending node_platform (out_allItems (build node_platform example_config
     [(''news'', [(example_url,
        Fulfilled (xml_response (example_feed [item_old, item_undated, item_new])))])]
     no_cache False))"
  by code_simp

theorem allItems_descending_when_all_dated_witness:
  "list_all (\<lambda>i. \<not> undated node_platform i)
     (out_allItems (build node_platform example_config
        [(''news'', [(example_url, Fulfilled (xml_response (example_feed [item_old, item_new])))])]
        no_cache False))
   \<and> descending node_platform
     (out_allItems (build node_platform example_config
        [(''news'', [(example_url, Fulfilled (xml_response (example_feed [item_old, item_new])))])]
        no_cache False))
   \<and> map title (out_allItems (build node_platform example_config
        [(''news'', [(example_url, Fulfilled (xml_response (example_feed [item_old, item_new])))])]
        no_cache False)) = [Some ''new'', Some ''old'']"
proof -
  have h: "list_all (\<lambda>i. \<not> undated node_platform i)
     (out_allItems (build node_platform example_config
        [(''news'', [(example_url, Fulfilled (xml_response (example_feed [item_old, item_new])))])]
        no_cache False))" by code_simp
  have t: "map title (out_allItems (build node_platform example_config
        [(''news'', [(example_url, Fulfilled (xml_response (example_feed [item_old, item_new])))])]
        no_cache False)) = [Some ''new'', Some ''old'']" by code_simp
  show ?thesis using allItems_descending_when_all_dated[OF h] h t by simp
qed

section \<open>Failing sources\<close>

lemma process_result_Rejected:
  "process_result P cfg g st (url, Rejected) = st\<lparr>errors := errors st @ [url]\<rparr>"
  by (simp add: process_result_def)

lemma process_result_no_header:
  "content_type resp = None \<Longrightarrow>
   process_result P cfg g st (url, Fulfilled resp) = st\<lparr>errors := errors st @ [url]\<rparr>"
  by (simp add: process_result_def try_source_def)

lemma process_result_invalid_type:
  "content_type resp = Some h \<Longrightarrow> invalid_content_type h url \<Longrightarrow>
   process_result P cfg g st (url, Fulfilled resp) = st\<lparr>errors := errors st @ [url]\<rparr>"
  by (simp add: process_result_def try_source_def)

lemma process_result_parse_failure:
  "content_type resp = Some h \<Longrightarrow> parsed resp = None \<Longrightarrow>
   process_result P cfg g st (url, Fulfilled resp) = st\<lparr>errors := errors st @ [url]\<rparr>"
  by (simp add: process_result_def try_source_def)

lemma empty_items_test_never_fires: "strict_equals (js_not_num n) (JNum 0) = False"
  by (simp add: js_not_num_def)

lemma try_source_stores:
  assumes "content_type resp = Some h" and "\<not> invalid_content_type h url"
    and "parsed resp = Some c" and "feedTitle c = Some t"
    and "forEach_items (normalize_item P cfg (c\<lparr>feed := Some url, feed_title := Some (truncateTitle t)\<rparr>)
           (isRedditRSS c)) (sort_js (itemCompare P) (items c)) = Inr its"
  shows "try_source P cfg g url resp st =
     Inr (st\<lparr>groupContents := push_group g
            (c\<lparr>feed := Some url, feed_title := Some (truncateTitle t), items := its\<rparr>)
            (groupContents st),
          allItems := allItems st @ its\<rparr>)"
  using assms by (simp add: try_source_def empty_items_test_never_fires Let_def)

lemma sort_js_single: "sort_js c [x] = [x]"
  by (simp add: sort_js_def)

lemma sort_js_Nil: "sort_js c [] = []"
  by (simp add: sort_js_def)

lemma process_result_single_item:
  assumes "content_type resp = Some h" and "\<not> invalid_content_type h url"
    and "parsed resp = Some c" and "feedTitle c = Some t" and "items c = [it]"
    and "normalize_item P cfg (c\<lparr>feed := Some url, feed_title := Some (truncateTitle t)\<rparr>)
           (isRedditRSS c) it = Inr it'"
  shows "process_result P cfg g st (url, Fulfilled resp) =
     st\<lparr>groupContents := push_group g
            (c\<lparr>feed := Some url, feed_title := Some (truncateTitle t), items := [it']\<rparr>)
            (groupContents st),
        allItems := allItems st @ [it']\<rparr>"
proof -
  have "forEach_items (normalize_item P cfg (c\<lparr>feed := Some url, feed_title := Some (truncateTitle t)\<rparr>)
           (isRedditRSS c)) (sort_js (itemCompare P) (items c)) = Inr [it']"
    using assms(5,6) by (simp add: sort_js_single)
  from try_source_stores[OF assms(1-4) this] show ?thesis
    by (simp add: process_result_def)
qed

lemma perm3: "mset xs = {#a, b, c#} \<Longrightarrow>
  xs = [a, b, c] \<or> xs = [a, c, b] \<or> xs = [b, a, c] \<or> xs = [b, c, a] \<or> xs = [c, a, b] \<or> xs = [c, b, a]"
proof -
  assume m: "mset xs = {#a, b, c#}"
  then have "length xs = 3" by (metis size_mset size_add_mset size_empty numeral_3_eq_3)
  then obtain x y z where xs: "xs = [x, y, z]"
    by (metis length_0_conv length_Suc_conv numeral_3_eq_3)
  show ?thesis using m unfolding xs by (auto simp: add_eq_conv_ex)
qed

text \<open>
  A group of three sources, in any order: one whose response is rejected by the
  content-type test, one whose fetch is rejected, and one whose response is a valid feed
  with a single item that normalizes. The build ends with exactly the two failing URLs in
  \<open>errors\<close> and the one normalized item in \<open>allItems\<close>. The group holds the one feed,
  unless its name is \<open>__proto__\<close>: then the build has no group at all.
\<close>

lemma three_sources:
  assumes "content_type r1 = Some h1" and "invalid_content_type h1 u1"
    and "content_type r3 = Some h3" and "\<not> invalid_content_type h3 u3"
    and "parsed r3 = Some c" and "feedTitle c = Some t" and "items c = [it]"
    and "normalize_item P cfg (c\<lparr>feed := Some u3, feed_title := Some (truncateTitle t)\<rparr>)
           (isRedditRSS c) it = Inr it'"
    and "mset srcs = {#(u1, Fulfilled r1), (u2, Rejected), (u3, Fulfilled r3)#}"
  shows "mset (out_errors (build P cfg [(g, srcs)] no_cache w)) = {#u1, u2#}
     \<and> out_allItems (build P cfg [(g, srcs)] no_cache w) = [it']
     \<and> out_groups (build P cfg [(g, srcs)] no_cache w) =
         (if g = ''__proto__'' then []
          else [(g, [c\<lparr>feed := Some u3, feed_title := Some (truncateTitle t), items := [it']\<rparr>])])"
proof -
  note a = process_result_invalid_type[OF assms(1,2)]
  note b = process_result_Rejected
  note c = process_result_single_item[OF assms(3-8)]
  from perm3[OF assms(9)] show ?thesis
    by (elim disjE)
      (simp_all add: build_def process_group_def no_cache_def a b c push_group_def
        assign_group_def sort_js_single Let_def)
qed

lemma three_sources_example:
  "mset (out_errors (build node_platform example_config
       [(''news'', [down_source, good_source, html_source])] no_cache False))
     = {#''https://example.org/page'', ''https://down.example.net/feed''#}
   \<and> out_allItems (build node_platform example_config
       [(''news'', [down_source, good_source, html_source])] no_cache False)
     = [item_new\<lparr>timestamp := Some ''1/2/2024''\<rparr>]
   \<and> out_groups (build node_platform example_config
       [(''news'', [down_source, good_source, html_source])] no_cache False)
     = [(''news'', [(example_feed [item_new])\<lparr>feed := Some example_url,
          feed_title := Some (truncateTitle ''Example''),
          items := [item_new\<lparr>timestamp := Some ''1/2/2024''\<rparr>]\<rparr>])]"
proof -
  let ?r1 = "\<lparr>content_type = Some ''text/html; charset=utf-8'', parsed = None\<rparr>"
  let ?r3 = "xml_response (example_feed [item_new])"
  have h1: "content_type ?r1 = Some ''text/html; charset=utf-8''" by simp
  have h2: "invalid_content_type ''text/html; charset=utf-8'' ''https://example.org/page''"
    by code_simp
  have h3: "content_type ?r3 = Some ''application/xml; charset=utf-8''"
    by (simp add: xml_response_def)
  have h4: "\<not> invalid_content_type ''application/xml; charset=utf-8'' example_url"
    by code_simp
  have h5: "parsed ?r3 = Some (example_feed [item_new])" by (simp add: xml_response_def)
  have h6: "feedTitle (example_feed [item_new]) = Some ''Example''" by code_simp
  have h7: "items (example_feed [item_new]) = [item_new]" by (simp add: example_feed_def)
  have h8: "normalize_item node_platform example_config
      ((example_feed [item_new])\<lparr>feed := Some example_url,
         feed_title := Some (truncateTitle ''Example'')\<rparr>)
      (isRedditRSS (example_feed [item_new])) item_new
      = Inr (item_new\<lparr>timestamp := Some ''1/2/2024''\<rparr>)" by code_simp
  have h9: "mset [down_source, good_source, html_source] =
      {#(''https://example.org/page'', Fulfilled ?r1), (''https://down.example.net/feed'', Rejected),
        (example_url, Fulfilled ?r3)#}"
    by (simp add: down_source_def good_source_def html_source_def)
  have n: "''news'' \<noteq> ''__proto__''" by simp
  show ?thesis
    using three_sources[OF h1 h2 h3 h4 h5 h6 h7 h8 h9, where g = "''news''" and w = False] n
    by simp
qed

text \<open>
  Claim C5, at a group named \<open>__proto__\<close>. The three sources are those of the claim: an
  unacceptable content type, a rejected fetch and a valid feed with one item. The build
  completes, \<open>errors\<close> holds the two failing URLs and \<open>allItems\<close> the one item, but
  \<open>groupContents['__proto__'] = []\<close> has created no property and the group with its feed
  is missing from the groups of the build. For every other group name the claim holds,
  by the lemma \<open>three_sources\<close>.
\<close>

theorem proto_group_is_dropped:
  "build node_platform example_config
     [(''__proto__'', [html_source, down_source, good_source])] no_cache False
   = \<lparr>out_allItems = [item_new\<lparr>timestamp := Some ''1/2/2024''\<rparr>],
      out_groups = [],
      out_errors = [''https://example.org/page'', ''https://down.example.net/feed''],
      written = None\<rparr>"
  by code_simp

lemma try_source_errors: "errors (after (try_source P cfg g url resp st)) = errors st"
  by (simp add: try_source_def Let_def split: option.splits sum.splits prod.splits)

lemma errors_process_result:
  "set (errors st) \<subseteq> set (errors (process_result P cfg g st src))"
proof (cases src)
  case (Pair url r)
  show ?thesis
  proof (cases r)
    case Rejected
    with Pair show ?thesis by (simp add: process_result_def subset_insertI)
  next
    case (Fulfilled resp)
    show ?thesis
      using try_source_errors[of P cfg g url resp st] Pair Fulfilled
      by (auto simp: process_result_def split: sum.splits)
  qed
qed

lemma errors_foldl_process_result:
  "set (errors st) \<subseteq> set (errors (foldl (process_result P cfg g) st srcs))"
proof (induction srcs arbitrary: st)
  case Nil
  show ?case by simp
next
  case (Cons s srcs)
  show ?case using errors_process_result[of st P cfg g s] Cons[of "process_result P cfg g st s"]
    by auto
qed

lemma errors_process_group:
  "set (errors st) \<subseteq> set (errors (process_group P cfg st grp))"
  using errors_foldl_process_result[of "st\<lparr>groupContents := assign_group (fst grp) (groupContents st)\<rparr>" P cfg "fst grp" "snd grp"]
  by (cases grp) (simp add: process_group_def)

lemma errors_foldl_process_group:
  "set (errors st) \<subseteq> set (errors (foldl (process_group P cfg) st gs))"
proof (induction gs arbitrary: st)
  case Nil
  show ?case by simp
next
  case (Cons grp gs)
  show ?case using errors_process_group[of st P cfg grp] Cons[of "process_group P cfg st grp"]
    by auto
qed

text \<open>
  Claim C10. A response without a \<open>content-type\<close> header throws inside the \<open>try\<close> block:
  the source only adds its URL to \<open>errors\<close>, the sources after it are processed from that
  state, and the URL is in the \<open>errors\<close> of the finished build.
\<close>

theorem missing_content_type_header:
  assumes "content_type resp = None"
  shows "process_result P cfg g st (url, Fulfilled resp) = st\<lparr>errors := errors st @ [url]\<rparr>
     \<and> foldl (process_result P cfg g) st (before @ (url, Fulfilled resp) # rest)
         = foldl (process_result P cfg g)
             ((foldl (process_result P cfg g) st before)
                \<lparr>errors := errors (foldl (process_result P cfg g) st before) @ [url]\<rparr>) rest
     \<and> url \<in> set (out_errors (build P cfg
           (gs @ (g, before @ (url, Fulfilled resp) # rest) # gs') cch w))"
proof -
  note step = process_result_no_header[OF assms]
  have one: "process_result P cfg g st (url, Fulfilled resp) = st\<lparr>errors := errors st @ [url]\<rparr>"
    by (rule step)
  have two: "foldl (process_result P cfg g) st (before @ (url, Fulfilled resp) # rest)
         = foldl (process_result P cfg g)
             ((foldl (process_result P cfg g) st before)
                \<lparr>errors := errors (foldl (process_result P cfg g) st before) @ [url]\<rparr>) rest"
    by (simp add: step)
  have grp: "url \<in> set (errors (process_group P cfg s (g, before @ (url, Fulfilled resp) # rest)))" for s
  proof -
    let ?s0 = "s\<lparr>groupContents := assign_group g (groupContents s)\<rparr>"
    let ?s1 = "foldl (process_result P cfg g) ?s0 before"
    have "url \<in> set (errors (?s1\<lparr>errors := errors ?s1 @ [url]\<rparr>))" by simp
    then have "url \<in> set (errors (foldl (process_result P cfg g) (?s1\<lparr>errors := errors ?s1 @ [url]\<rparr>) rest))"
      using errors_foldl_process_result by blast
    then show ?thesis by (simp add: process_group_def step)
  qed
  have "url \<in> set (errors (foldl (process_group P cfg) s0
          (gs @ (g, before @ (url, Fulfilled resp) # rest) # gs')))" for s0
    using grp[of "foldl (process_group P cfg) s0 gs"] errors_foldl_process_group
    by (simp only: foldl_append foldl_Cons) blast
  then have three: "url \<in> set (out_errors (build P cfg
           (gs @ (g, before @ (url, Fulfilled resp) # rest) # gs') cch w))"
    by (simp add: build_def Let_def)
  from one two three show ?thesis by blast
qed

theorem missing_content_type_header_witness:
  "headerless_source = (''https://example.net/feed'',
       Fulfilled \<lparr>content_type = None, parsed = Some (example_feed [item_old])\<rparr>)
   \<and> out_errors (build node_platform example_config
        [(''news'', [headerless_source, good_source])] no_cache False) = [''https://example.net/feed'']
   \<and> ''https://example.net/feed'' \<in> set (out_errors (build node_platform example_config
        [(''news'', [headerless_source, good_source])] no_cache False))
   \<and> map title (out_allItems (build node_platform example_config
        [(''news'', [headerless_source, good_source])] no_cache False)) = [Some ''new'']"
proof -
  let ?resp = "\<lparr>content_type = None, parsed = Some (example_feed [item_old])\<rparr>"
  have h: "content_type ?resp = None" by simp
  have src: "headerless_source = (''https://example.net/feed'', Fulfilled ?resp)"
    by (simp add: headerless_source_def)
  have e: "out_errors (build node_platform example_config
        [(''news'', [headerless_source, good_source])] no_cache False) = [''https://example.net/feed'']"
    by code_simp
  have t: "map title (out_allItems (build node_platform example_config
        [(''news'', [headerless_source, good_source])] no_cache False)) = [Some ''new'']"
    by code_simp
  from missing_content_type_header[OF h, of node_platform example_config "''news''" _
      "''https://example.net/feed''" "[]" "[good_source]" "[]" "[]" no_cache False]
  have "''https://example.net/feed'' \<in> set (out_errors (build node_platform example_config
        [(''news'', [headerless_source, good_source])] no_cache False))"
    by (simp add: src)
  with e t src show ?thesis by simp
qed

section \<open>Titles, links and redirects\<close>

lemma truncateTitle_long:
  assumes "100 < length t"
  shows "length (truncateTitle t) = 100" and "suffix ''...'' (truncateTitle t)"
    and "take 97 (truncateTitle t) = take 97 t"
  using assms by (simp_all add: truncateTitle_def suffix_def)

lemma truncateTitle_short: "length t \<le> 100 \<Longrightarrow> truncateTitle t = t"
  by (simp add: truncateTitle_def)

lemma try_source_Inr_stored:
  assumes "try_source P cfg g url resp st = Inr st'" and "parsed resp = Some c"
    and "feedTitle c = Some t"
  shows "\<exists>its. groupContents st' = push_group g
           (c\<lparr>feed := Some url, feed_title := Some (truncateTitle t), items := its\<rparr>)
           (groupContents st)"
  using assms
  by (auto simp: try_source_def Let_def split: option.splits if_splits sum.splits prod.splits)

text \<open>
  Claim C6. The title stored with a feed is the parsed title (after the fallback chain),
  truncated: a title of more than 100 code units becomes 100 code units long, ends in
  \<open>...\<close> and agrees with the original on its first 97; a title of at most 100 is stored
  unchanged.
\<close>

theorem stored_title_truncated:
  assumes "try_source P cfg g url resp st = Inr st'" and "parsed resp = Some c"
    and "feedTitle c = Some t"
  shows "(\<exists>f. groupContents st' = push_group g f (groupContents st)
            \<and> feed_title f = Some (truncateTitle t))
     \<and> (100 < length t \<longrightarrow> length (truncateTitle t) = 100 \<and> suffix ''...'' (truncateTitle t)
            \<and> take 97 (truncateTitle t) = take 97 t)
     \<and> (length t \<le> 100 \<longrightarrow> truncateTitle t = t)"
proof -
  from try_source_Inr_stored[OF assms] obtain its where
    "groupContents st' = push_group g
       (c\<lparr>feed := Some url, feed_title := Some (truncateTitle t), items := its\<rparr>) (groupContents st)"
    by blast
  then have "\<exists>f. groupContents st' = push_group g f (groupContents st)
            \<and> feed_title f = Some (truncateTitle t)"
    by (intro exI[of _ "c\<lparr>feed := Some url, feed_title := Some (truncateTitle t), items := its\<rparr>"]) simp
  then show ?thesis
    using truncateTitle_long[of t] truncateTitle_short[of t] by blast
qed












theorem stored_title_truncated_witness:
  "completes (try_source node_platform example_config ''news'' example_url
       (xml_response ((example_feed [item_new])\<lparr>feed_title := Some long_title\<rparr>))
       \<lparr>allItems = [], errors = [], groupContents = [(''news'', [])]\<rparr>)
   \<and> length long_title = 150
   \<and> length (truncateTitle long_title) = 100
   \<and> suffix ''...'' (truncateTitle long_title)
   \<and> take 97 (truncateTitle long_title) = take 97 long_title
   \<and> truncateTitle ''Example'' = ''Example''"
proof -
  let ?st = "\<lparr>allItems = [], errors = [], groupContents = [(''news'', [])]\<rparr>"
  let ?long = "(example_feed [item_new])\<lparr>feed_title := Some long_title\<rparr>"
  have c1: "completes (try_source node_platform example_config ''news'' example_url
       (xml_response ?long) ?st)" by code_simp
  then obtain st1 where r1: "try_source node_platform example_config ''news'' example_url
       (xml_response ?long) ?st = Inr st1"
    by (auto simp: completes_def split: sum.splits)
  have c2: "completes (try_source node_platform example_config ''news'' example_url
       (xml_response (example_feed [item_new])) ?st)" by code_simp
  then obtain st2 where r2: "try_source node_platform example_config ''news'' example_url
       (xml_response (example_feed [item_new])) ?st = Inr st2"
    by (auto simp: completes_def split: sum.splits)
  have p1: "parsed (xml_response ?long) = Some ?long" by (simp add: xml_response_def)
  have p2: "parsed (xml_response (example_feed [item_new])) = Some (example_feed [item_new])"
    by (simp add: xml_response_def)
  have t1: "feedTitle ?long = Some long_title" by code_simp
  have t2: "feedTitle (example_feed [item_new]) = Some ''Example''" by code_simp
  have n1: "length long_title = 150" by (simp add: long_title_def)
  have n2: "length ''Example'' \<le> 100" by simp
  show ?thesis
    using stored_title_truncated[OF r1 p1 t1] stored_title_truncated[OF r2 p2 t2] c1 n1 n2
    by simp
qed

lemma redirect_rewrites:
  assumes "redirects cfg = Some table" and "link i = Some l" and "URL_parse P l = Some u"
    and "2 \<le> length (split ''.'' (hostname u))"
    and "nth_opt (split ''.'' (hostname u)) (length (split ''.'' (hostname u)) - 2) = Some host"
    and "table host = Some r" and "r \<noteq> []"
  shows "apply_redirect P cfg i = Inr (i\<lparr>link := Some (''https://'' @ r @ pathname u @ search u)\<rparr>)"
  using assms by (simp add: apply_redirect_def to_string_def get_property_def Let_def)

lemma redirect_absent:
  assumes "redirects cfg = Some table" and "link i = Some l" and "URL_parse P l = Some u"
    and "2 \<le> length (split ''.'' (hostname u))"
    and "nth_opt (split ''.'' (hostname u)) (length (split ''.'' (hostname u)) - 2) = Some host"
    and "table host = None" and "Object_prototype host = None"
  shows "apply_redirect P cfg i = Inr i"
  using assms by (simp add: apply_redirect_def to_string_def get_property_def Let_def)

lemma redirect_reddit_example:
  "apply_redirect node_platform reddit_config
     (empty_item\<lparr>link := Some ''https://www.reddit.com/r/foo/comments/1?x=2''\<rparr>)
     = Inr (empty_item\<lparr>link := Some ''https://old.reddit.com/r/foo/comments/1?x=2''\<rparr>)
   \<and> URL_parse node_platform ''https://old.reddit.com/r/foo/comments/1?x=2''
     = Some \<lparr>hostname = ''old.reddit.com'', pathname = ''/r/foo/comments/1'', search = ''?x=2''\<rparr>"
  by code_simp

text \<open>
  Claim C8, at a link whose token is absent from the table. With the table
  \<open>{ "reddit": "old.reddit.com" }\<close> the link \<open>https://constructor.com/x\<close> has the token
  \<open>constructor\<close>, which is not a key of the table; the lookup finds the property that every
  object inherits, and the link is rewritten to that function's source text as a host.
  The lemmas before this one prove the claim's other parts: the rewriting for a token
  that is a key, the example, and the unchanged link for an absent token that names no
  inherited property.
\<close>

theorem redirect_inherited_property:
  "the (redirects reddit_config) ''constructor'' = None
   \<and> URL_parse node_platform ''https://constructor.com/x''
       = Some \<lparr>hostname = ''constructor.com'', pathname = ''/x'', search = []\<rparr>
   \<and> apply_redirect node_platform reddit_config
       (empty_item\<lparr>link := Some ''https://constructor.com/x''\<rparr>)
       = Inr (empty_item\<lparr>link := Some ''https://function Object() { [native code] }/x''\<rparr>)"
  by code_simp

lemma empty_feed_stored:
  assumes "content_type resp = Some h" and "\<not> invalid_content_type h url"
    and "parsed resp = Some c" and "items c = []" and "feedTitle c = Some t"
  shows "process_result P cfg g st (url, Fulfilled resp) =
     st\<lparr>groupContents := push_group g
          (c\<lparr>feed := Some url, feed_title := Some (truncateTitle t), items := []\<rparr>)
          (groupContents st)\<rparr>"
proof -
  have "forEach_items (normalize_item P cfg (c\<lparr>feed := Some url, feed_title := Some (truncateTitle t)\<rparr>)
           (isRedditRSS c)) (sort_js (itemCompare P) (items c)) = Inr []"
    using assms(4) by (simp add: sort_js_Nil)
  from try_source_stores[OF assms(1-3,5) this] show ?thesis
    by (simp add: process_result_def)
qed

text \<open>
  Claim C2, at a feed without items. The test \<open>!contents.items.length === 0\<close> compares a
  boolean with a number and never holds, so a validated and parsed feed with no items is
  stored in its group and its URL is not recorded in \<open>errors\<close>.
\<close>

theorem empty_feed_is_accepted:
  "build node_platform example_config
     [(''news'', [(example_url, Fulfilled (xml_response (example_feed [])))])] no_cache False
   = \<lparr>out_allItems = [],
      out_groups = [(''news'', [(example_feed [])\<lparr>feed := Some example_url\<rparr>])],
      out_errors = [], written = None\<rparr>"
  by code_simp

lemma try_source_Inl_allItems:
  "try_source P cfg g url resp st = Inl (e, st') \<Longrightarrow> allItems st' = allItems st"
  by (auto simp: try_source_def Let_def split: option.splits if_splits sum.splits prod.splits)

lemma failed_source_no_items:
  "try_source P cfg g url resp st = Inl (e, st') \<Longrightarrow>
   allItems (process_result P cfg g st (url, Fulfilled resp)) = allItems st
   \<and> errors (process_result P cfg g st (url, Fulfilled resp)) = errors st @ [url]"
  using try_source_Inl_allItems[of P cfg g url resp st e st']
    try_source_errors[of P cfg g url resp st]
  by (simp add: process_result_def)

text \<open>
  Claim C3, at a source that fails in normalization. The item of this subreddit feed has
  the attribution marker but a content with a single anchor, so the extraction throws.
  The URL is recorded and \<open>allItems\<close> gets nothing, but the feed had been pushed to its
  group before its items were normalized and stays there. A source that fails earlier
  (fetch, content type, parse) only adds its URL to \<open>errors\<close>, by the lemmas
  \<open>process_result_Rejected\<close>, \<open>process_result_no_header\<close>, \<open>process_result_invalid_type\<close> and
  \<open>process_result_parse_failure\<close>.
\<close>

theorem failed_extraction_leaves_feed:
  "build node_platform example_config
     [(''news'', [(reddit_url, Fulfilled (xml_response reddit_feed))])] no_cache False
   = \<lparr>out_allItems = [],
      out_groups = [(''news'', [reddit_feed\<lparr>feed := Some reddit_url,
         items := [reddit_item\<lparr>timestamp := Some ''1/2/2024''\<rparr>]\<rparr>])],
      out_errors = [reddit_url], written = None\<rparr>"
  by code_simp

end
